theory Spec2Isabelle
  imports Complex_Main
begin

section \<open>The calculator of \<^verbatim>\<open>src/main.cpp\<close>\<close>

text \<open>
  The class \<^verbatim>\<open>Calculator\<close> evaluates an infix expression in three passes:
  \<^verbatim>\<open>tokenize\<close>, \<^verbatim>\<open>shuntingYard\<close> (infix to postfix) and \<^verbatim>\<open>solveRPN\<close>
  (postfix evaluation on a stack of doubles). Each C++ function is a HOL function of
  the same name. A \<^verbatim>\<open>std::vector\<close> is a list that grows at its end
  (\<^verbatim>\<open>push_back\<close> appends), a \<^verbatim>\<open>std::stack\<close> is a list whose head is the top,
  and a thrown exception is the \<open>Inl\<close> of a sum.
\<close>

subsection \<open>Tokens and exceptions\<close>

datatype TokenType = Number | Operator | Function | LeftParen | RightParen

text \<open>
  \<^verbatim>\<open>struct Token { TokenType type; std::string value; }\<close>. The fields carry a prime
  because \<^verbatim>\<open>value\<close> is a reserved word of the theory language.
\<close>

record Token =
  type' :: TokenType
  value' :: string

text \<open>
  The exceptions that can leave \<^verbatim>\<open>evaluate\<close>: the \<^verbatim>\<open>std::runtime_error\<close>s the
  calculator throws itself, with their message, and the two exceptions of
  \<^verbatim>\<open>std::stod\<close>, whose messages are left to the library.
\<close>

datatype exception = runtime_error string | invalid_argument | out_of_range

subsection \<open>Character classes\<close>

text \<open>
  \<^verbatim>\<open>std::isspace\<close>, \<^verbatim>\<open>std::isdigit\<close> and \<^verbatim>\<open>std::isalpha\<close> in the "C" locale, where
  no character above 127 belongs to any class.
\<close>

definition isspace :: "char \<Rightarrow> bool" where
  "isspace c = (let n = (of_char c :: nat) in n = 32 \<or> (9 \<le> n \<and> n \<le> 13))"

definition isdigit :: "char \<Rightarrow> bool" where
  "isdigit c = (let n = (of_char c :: nat) in 48 \<le> n \<and> n \<le> 57)"

definition isalpha :: "char \<Rightarrow> bool" where
  "isalpha c = (let n = (of_char c :: nat) in (65 \<le> n \<and> n \<le> 90) \<or> (97 \<le> n \<and> n \<le> 122))"

subsection \<open>Operator table\<close>

definition getPrecedence :: "string \<Rightarrow> int" where
  "getPrecedence op =
     (if op = ''+'' \<or> op = ''-'' then 1
      else if op = ''*'' \<or> op = ''/'' \<or> op = ''%'' then 2
      else if op = ''^'' then 3
      else 0)"

definition isRightAssociative :: "string \<Rightarrow> bool" where
  "isRightAssociative op = (op = ''^'')"

subsection \<open>tokenize\<close>

text \<open>
  The \<^verbatim>\<open>for\<close> loop over the index \<open>i\<close> is a recursion over the characters from
  \<open>i\<close> on; \<open>tokens\<close> is the vector built so far. The two inner \<^verbatim>\<open>while\<close> loops
  collect the longest run of number characters (digits and dots) or of letters that
  starts at \<open>i\<close>, and the outer loop goes on after the run.
\<close>

definition isnumchar :: "char \<Rightarrow> bool" where
  "isnumchar c = (isdigit c \<or> c = CHR ''.'')"

function tokenize_from :: "string \<Rightarrow> Token list \<Rightarrow> Token list" where
  "tokenize_from [] tokens = tokens"
| "tokenize_from (c # cs) tokens =
     (if isspace c then tokenize_from cs tokens
      else if isnumchar c then
        tokenize_from (dropWhile isnumchar (c # cs))
          (tokens @ [\<lparr>type' = Number, value' = takeWhile isnumchar (c # cs)\<rparr>])
      else if isalpha c then
        tokenize_from (dropWhile isalpha (c # cs))
          (tokens @ [\<lparr>type' = Function, value' = takeWhile isalpha (c # cs)\<rparr>])
      else if c = CHR ''('' then
        tokenize_from cs (tokens @ [\<lparr>type' = LeftParen, value' = ''(''\<rparr>])
      else if c = CHR '')'' then
        tokenize_from cs (tokens @ [\<lparr>type' = RightParen, value' = '')''\<rparr>])
      else if c = CHR ''-'' then
        (if tokens = [] \<or> type' (last tokens) = LeftParen \<or> type' (last tokens) = Operator
         then tokenize_from cs (tokens @ [\<lparr>type' = Function, value' = ''_''\<rparr>])
         else tokenize_from cs (tokens @ [\<lparr>type' = Operator, value' = ''-''\<rparr>]))
      else tokenize_from cs (tokens @ [\<lparr>type' = Operator, value' = [c]\<rparr>]))"
  by pat_completeness auto

termination
  by (relation "measure (\<lambda>(s, tokens). length s)")
     (auto simp: less_Suc_eq_le length_dropWhile_le)

definition tokenize :: "string \<Rightarrow> Token list" where
  "tokenize expr = tokenize_from expr []"

subsection \<open>shuntingYard\<close>

text \<open>
  The loop of lines 135 to 149, run when an \<open>Operator\<close> token arrives: it moves
  tokens from the operator stack to the output while the top is not a left parenthesis
  and is a function or an operator that binds at least as tightly. The result is the
  stack and the output after the loop.
\<close>

fun pop_operators :: "Token \<Rightarrow> Token list \<Rightarrow> Token list \<Rightarrow> Token list \<times> Token list" where
  "pop_operators token [] output = ([], output)"
| "pop_operators token (top' # operators) output =
     (if type' top' \<noteq> LeftParen then
        (if type' top' = Function \<or>
            (\<not> isRightAssociative (value' token) \<and>
               getPrecedence (value' token) \<le> getPrecedence (value' top')) \<or>
            (isRightAssociative (value' token) \<and>
               getPrecedence (value' token) < getPrecedence (value' top'))
         then pop_operators token operators (output @ [top'])
         else (top' # operators, output))
      else (top' # operators, output))"

text \<open>The loop of lines 158 to 162, run when a \<open>RightParen\<close> token arrives.\<close>

fun pop_to_paren :: "Token list \<Rightarrow> Token list \<Rightarrow> Token list \<times> Token list" where
  "pop_to_paren [] output = ([], output)"
| "pop_to_paren (top' # operators) output =
     (if type' top' \<noteq> LeftParen then pop_to_paren operators (output @ [top'])
      else (top' # operators, output))"

text \<open>The body of the \<^verbatim>\<open>for\<close> loop over the tokens, for one token.\<close>

definition shuntingYard_step ::
  "Token \<Rightarrow> Token list \<Rightarrow> Token list \<Rightarrow> exception + Token list \<times> Token list" where
  "shuntingYard_step token operators output =
     (case type' token of
        Number \<Rightarrow> Inr (operators, output @ [token])
      | Function \<Rightarrow> Inr (token # operators, output)
      | Operator \<Rightarrow>
          (case pop_operators token operators output of
             (operators', output') \<Rightarrow> Inr (token # operators', output'))
      | LeftParen \<Rightarrow> Inr (token # operators, output)
      | RightParen \<Rightarrow>
          (case pop_to_paren operators output of
             ([], output') \<Rightarrow> Inl (runtime_error ''Mismatched parentheses'')
           | (paren # operators', output') \<Rightarrow>
               (case operators' of
                  [] \<Rightarrow> Inr (operators', output')
                | top' # operators'' \<Rightarrow>
                    if type' top' = Function then Inr (operators'', output' @ [top'])
                    else Inr (operators', output'))))"

fun shuntingYard_loop ::
  "Token list \<Rightarrow> Token list \<Rightarrow> Token list \<Rightarrow> exception + Token list \<times> Token list" where
  "shuntingYard_loop [] operators output = Inr (operators, output)"
| "shuntingYard_loop (token # tokens) operators output =
     (case shuntingYard_step token operators output of
        Inl e \<Rightarrow> Inl e
      | Inr (operators', output') \<Rightarrow> shuntingYard_loop tokens operators' output')"

text \<open>The final loop of lines 174 to 180, which empties the operator stack.\<close>

fun flush_operators :: "Token list \<Rightarrow> Token list \<Rightarrow> exception + Token list" where
  "flush_operators [] output = Inr output"
| "flush_operators (top' # operators) output =
     (if type' top' = LeftParen then Inl (runtime_error ''Mismatched parentheses'')
      else flush_operators operators (output @ [top']))"

definition shuntingYard :: "Token list \<Rightarrow> exception + Token list" where
  "shuntingYard tokens =
     (case shuntingYard_loop tokens [] [] of
        Inl e \<Rightarrow> Inl e
      | Inr (operators, output) \<Rightarrow> flush_operators operators output)"

subsection \<open>Double arithmetic\<close>

text \<open>
  The evaluator computes on \<^verbatim>\<open>double\<close>. The floating-point operations it calls are
  those of the platform, so the model takes them as a parameter: a value of type
  \<open>'d arith\<close> gives, for doubles of type \<open>'d\<close>, the operators \<^verbatim>\<open>+ - * /\<close>, the
  test \<^verbatim>\<open>b == 0\<close>, unary minus, \<^verbatim>\<open>std::pow\<close>, \<^verbatim>\<open>std::sin\<close>, \<^verbatim>\<open>std::cos\<close>,
  \<^verbatim>\<open>std::tan\<close>, \<^verbatim>\<open>std::sqrt\<close>, and the conversion \<^verbatim>\<open>strtod\<close> of a decimal
  literal, which is \<open>None\<close> when the library reports a range error. What is proved for
  every \<open>'d arith\<close> holds for IEEE 754 arithmetic with its rounding, infinities and NaN.
\<close>

record 'd arith =
  strtod :: "string \<Rightarrow> 'd option"
  is_zero :: "'d \<Rightarrow> bool"
  fadd :: "'d \<Rightarrow> 'd \<Rightarrow> 'd"
  fsub :: "'d \<Rightarrow> 'd \<Rightarrow> 'd"
  fmul :: "'d \<Rightarrow> 'd \<Rightarrow> 'd"
  fdiv :: "'d \<Rightarrow> 'd \<Rightarrow> 'd"
  fpow :: "'d \<Rightarrow> 'd \<Rightarrow> 'd"
  fneg :: "'d \<Rightarrow> 'd"
  fsin :: "'d \<Rightarrow> 'd"
  fcos :: "'d \<Rightarrow> 'd"
  ftan :: "'d \<Rightarrow> 'd"
  fsqrt :: "'d \<Rightarrow> 'd"

text \<open>
  \<^verbatim>\<open>std::stod(text)\<close> on a text of digits and dots, which is all a \<open>Number\<close> token
  of \<open>tokenize\<close> holds (lemma \<open>evaluate_number_texts\<close> below). \<^verbatim>\<open>strtod\<close> reads the longest prefix that is a decimal
  literal: digits, then optionally a dot and digits, with a digit somewhere. Whatever
  follows that prefix is ignored (\<^verbatim>\<open>stod\<close> is called without its position argument).
  With no such prefix \<^verbatim>\<open>stod\<close> throws \<^verbatim>\<open>std::invalid_argument\<close>; on a range error
  it throws \<^verbatim>\<open>std::out_of_range\<close>.
\<close>

definition strtod_subject :: "string \<Rightarrow> string" where
  "strtod_subject text =
     (let whole = takeWhile isdigit text; rest = dropWhile isdigit text
      in case rest of
           [] \<Rightarrow> whole
         | c # rest' \<Rightarrow>
             if c = CHR ''.'' then
               (let frac = takeWhile isdigit rest'
                in if whole = [] \<and> frac = [] then [] else whole @ [c] @ frac)
             else whole)"

definition stod :: "'d arith \<Rightarrow> string \<Rightarrow> exception + 'd" where
  "stod A text =
     (let subject = strtod_subject text
      in if subject = [] then Inl invalid_argument
         else case strtod A subject of
                None \<Rightarrow> Inl out_of_range
              | Some d \<Rightarrow> Inr d)"

subsection \<open>solveRPN\<close>

text \<open>
  The body of the \<^verbatim>\<open>for\<close> loop of \<^verbatim>\<open>solveRPN\<close> for one token. The head of
  \<open>stack\<close> is the top, so \<open>b\<close> is popped first and \<open>a\<close> second. An \<open>Operator\<close> whose
  text is none of \<^verbatim>\<open>+ - * / ^\<close> matches no branch of lines 204 to 217: both operands
  are popped and nothing is pushed. A parenthesis token matches no branch of the loop
  body.
\<close>

definition solveRPN_step :: "'d arith \<Rightarrow> Token \<Rightarrow> 'd list \<Rightarrow> exception + 'd list" where
  "solveRPN_step A token stack =
     (case type' token of
        Number \<Rightarrow>
          (case stod A (value' token) of
             Inl e \<Rightarrow> Inl e
           | Inr d \<Rightarrow> Inr (d # stack))
      | Operator \<Rightarrow>
          (case stack of
             b # a # stack' \<Rightarrow>
               if value' token = ''+'' then Inr (fadd A a b # stack')
               else if value' token = ''-'' then Inr (fsub A a b # stack')
               else if value' token = ''*'' then Inr (fmul A a b # stack')
               else if value' token = ''/'' then
                 (if is_zero A b then Inl (runtime_error ''Division by zero'')
                  else Inr (fdiv A a b # stack'))
               else if value' token = ''^'' then Inr (fpow A a b # stack')
               else Inr stack'
           | _ \<Rightarrow> Inl (runtime_error ''Invalid expression''))
      | Function \<Rightarrow>
          (case stack of
             [] \<Rightarrow> Inl (runtime_error ''Invalid function call'')
           | a # stack' \<Rightarrow>
               if value' token = ''_'' then Inr (fneg A a # stack')
               else if value' token = ''sin'' then Inr (fsin A a # stack')
               else if value' token = ''cos'' then Inr (fcos A a # stack')
               else if value' token = ''tan'' then Inr (ftan A a # stack')
               else if value' token = ''sqrt'' then Inr (fsqrt A a # stack')
               else Inl (runtime_error (''Unknown function: '' @ value' token)))
      | LeftParen \<Rightarrow> Inr stack
      | RightParen \<Rightarrow> Inr stack)"

fun solveRPN_loop :: "'d arith \<Rightarrow> Token list \<Rightarrow> 'd list \<Rightarrow> exception + 'd list" where
  "solveRPN_loop A [] stack = Inr stack"
| "solveRPN_loop A (token # rpn) stack =
     (case solveRPN_step A token stack of
        Inl e \<Rightarrow> Inl e
      | Inr stack' \<Rightarrow> solveRPN_loop A rpn stack')"

definition solveRPN :: "'d arith \<Rightarrow> Token list \<Rightarrow> exception + 'd" where
  "solveRPN A rpn =
     (case solveRPN_loop A rpn [] of
        Inl e \<Rightarrow> Inl e
      | Inr stack \<Rightarrow>
          if length stack \<noteq> 1 then Inl (runtime_error ''Invalid expression'')
          else Inr (hd stack))"

subsection \<open>evaluate\<close>

definition evaluate :: "'d arith \<Rightarrow> string \<Rightarrow> exception + 'd" where
  "evaluate A expression =
     (case shuntingYard (tokenize expression) of
        Inl e \<Rightarrow> Inl e
      | Inr rpn \<Rightarrow> solveRPN A rpn)"

subsection \<open>Exact arithmetic\<close>

text \<open>
  The arithmetic of the real numbers, which double arithmetic rounds. A decimal literal
  denotes its exact value and is never out of range. \<^verbatim>\<open>std::pow\<close> with a whole
  exponent is the repeated product (or its inverse), also for a negative base. On
  integers of small magnitude, as in the examples below, every IEEE 754 operation is
  exact and agrees with this arithmetic.
\<close>

definition digit_value :: "char \<Rightarrow> nat" where
  "digit_value c = of_char c - 48"

definition digits_value :: "string \<Rightarrow> nat" where
  "digits_value ds = foldl (\<lambda>n c. 10 * n + digit_value c) 0 ds"

definition decimal_value :: "string \<Rightarrow> real" where
  "decimal_value subject =
     (let whole = takeWhile isdigit subject; frac = drop 1 (dropWhile isdigit subject)
      in real (digits_value whole) + real (digits_value frac) / 10 ^ length frac)"

definition exact_pow :: "real \<Rightarrow> real \<Rightarrow> real" where
  "exact_pow a b =
     (if b = of_int \<lfloor>b\<rfloor> then
        (if 0 \<le> b then a ^ nat \<lfloor>b\<rfloor> else inverse (a ^ nat (- \<lfloor>b\<rfloor>)))
      else a powr b)"

definition exact :: "real arith" where
  "exact =
     \<lparr>strtod = (\<lambda>subject. Some (decimal_value subject)),
      is_zero = (\<lambda>b. b = 0),
      fadd = (\<lambda>a b. a + b),
      fsub = (\<lambda>a b. a - b),
      fmul = (\<lambda>a b. a * b),
      fdiv = (\<lambda>a b. a / b),
      fpow = exact_pow,
      fneg = (\<lambda>a. - a),
      fsin = sin,
      fcos = cos,
      ftan = tan,
      fsqrt = sqrt\<rparr>"

subsection \<open>Balanced parentheses\<close>

text \<open>
  What it means for the parentheses of a token sequence to balance, said without the
  parser: reading from the left, \<open>paren_depth\<close> counts the left parentheses still
  open, and is \<open>None\<close> once a right parenthesis arrives with none open. The sequence
  is balanced when the count ends at zero.
\<close>

fun paren_depth :: "Token list \<Rightarrow> nat \<Rightarrow> nat option" where
  "paren_depth [] n = Some n"
| "paren_depth (token # tokens) n =
     (if type' token = LeftParen then paren_depth tokens (Suc n)
      else if type' token = RightParen then
        (case n of 0 \<Rightarrow> None | Suc m \<Rightarrow> paren_depth tokens m)
      else paren_depth tokens n)"

definition balanced :: "Token list \<Rightarrow> bool" where
  "balanced tokens = (paren_depth tokens 0 = Some 0)"

text \<open>
  The number of left parentheses on the operator stack, which the parser keeps equal to
  the count of \<open>paren_depth\<close>.
\<close>

definition open_parens :: "Token list \<Rightarrow> nat" where
  "open_parens operators = length (filter (\<lambda>t. type' t = LeftParen) operators)"

subsection \<open>Texts of number tokens\<close>

text \<open>
  A token satisfies \<open>number_text\<close> when it is no \<open>Number\<close> token, or its text is a
  nonempty run of digits and dots: the texts on which \<open>stod\<close> above is
  \<^verbatim>\<open>std::stod\<close>.
\<close>

definition number_text :: "Token \<Rightarrow> bool" where
  "number_text t =
     (if type' t = Number then value' t \<noteq> [] \<and> list_all isnumchar (value' t) else True)"

subsection \<open>The exceptions of evaluate\<close>

text \<open>
  The exceptions that \<open>evaluate\<close> is meant to throw: a \<^verbatim>\<open>std::runtime_error\<close> with
  one of the four fixed messages or with a message that starts with
  "Unknown function: ", and the two exceptions of \<^verbatim>\<open>std::stod\<close>. All derive from
  \<^verbatim>\<open>std::exception\<close>, which is what the caller in \<^verbatim>\<open>main\<close> catches.
\<close>

definition evaluate_exception :: "exception \<Rightarrow> bool" where
  "evaluate_exception e =
     (case e of
        runtime_error message \<Rightarrow>
          message = ''Mismatched parentheses'' \<or> message = ''Invalid expression'' \<or>
          message = ''Division by zero'' \<or> message = ''Invalid function call'' \<or>
          take 18 message = ''Unknown function: ''
      | invalid_argument \<Rightarrow> True
      | out_of_range \<Rightarrow> True)"

subsection \<open>Notation for tokens\<close>

abbreviation num :: "string \<Rightarrow> Token" where
  "num text \<equiv> \<lparr>type' = Number, value' = text\<rparr>"

abbreviation opr :: "string \<Rightarrow> Token" where
  "opr text \<equiv> \<lparr>type' = Operator, value' = text\<rparr>"

abbreviation fn :: "string \<Rightarrow> Token" where
  "fn text \<equiv> \<lparr>type' = Function, value' = text\<rparr>"

abbreviation lparen :: Token where
  "lparen \<equiv> \<lparr>type' = LeftParen, value' = ''(''\<rparr>"

abbreviation rparen :: Token where
  "rparen \<equiv> \<lparr>type' = RightParen, value' = '')''\<rparr>"

section \<open>Evaluating concrete expressions\<close>

lemmas parse_defs =
  tokenize_def shuntingYard_def shuntingYard_step_def
  isspace_def isdigit_def isalpha_def isnumchar_def getPrecedence_def isRightAssociative_def

lemmas eval_defs =
  evaluate_def solveRPN_def solveRPN_step_def stod_def strtod_subject_def isdigit_def

lemmas exact_defs =
  exact_def decimal_value_def digits_value_def digit_value_def isdigit_def

text \<open>The literals of the examples denote their values in the exact arithmetic.\<close>

lemma exact_literals:
  "strtod exact ''0'' = Some 0" "strtod exact ''1'' = Some 1" "strtod exact ''2'' = Some 2"
  "strtod exact ''3'' = Some 3" "strtod exact ''4'' = Some 4" "strtod exact ''5'' = Some 5"
  by (simp_all add: exact_defs)

lemma exact_ops:
  "fadd exact a b = a + b" "fsub exact a b = a - b" "fmul exact a b = a * b"
  "fdiv exact a b = a / b" "fneg exact a = - a" "is_zero exact b = (b = 0)"
  "fpow exact a b = exact_pow a b"
  by (simp_all add: exact_def)

lemma exact_pow_values:
  "exact_pow 3 2 = 9" "exact_pow 2 9 = 512" "exact_pow (- 2) 2 = 4"
  by (simp_all add: exact_pow_def)

subsection \<open>Postfix forms\<close>





subsection \<open>Values in any arithmetic\<close>





section \<open>Precedence and associativity\<close>















section \<open>Unary minus\<close>

lemma rpn_neg_sum:
  "shuntingYard (tokenize ''-5+3'') = Inr [num ''5'', fn ''_'', num ''3'', opr ''+'']"
  by (simp add: parse_defs)

lemma rpn_minus_neg:
  "shuntingYard (tokenize ''3-(-2)'') =
     Inr [num ''3'', num ''2'', fn ''_'', opr ''-'']"
  by (simp add: parse_defs)

lemma rpn_neg_power:
  "shuntingYard (tokenize ''-2^2'') = Inr [num ''2'', fn ''_'', num ''2'', opr ''^'']"
  by (simp add: parse_defs)

lemma evaluate_neg_sum:
  "strtod A ''5'' = Some five \<Longrightarrow> strtod A ''3'' = Some three \<Longrightarrow>
   evaluate A ''-5+3'' = Inr (fadd A (fneg A five) three)"
  by (simp add: eval_defs rpn_neg_sum)

lemma evaluate_minus_neg:
  "strtod A ''3'' = Some three \<Longrightarrow> strtod A ''2'' = Some two \<Longrightarrow>
   evaluate A ''3-(-2)'' = Inr (fsub A three (fneg A two))"
  by (simp add: eval_defs rpn_minus_neg)

lemma evaluate_neg_power:
  "strtod A ''2'' = Some two \<Longrightarrow>
   evaluate A ''-2^2'' = Inr (fpow A (fneg A two) two)"
  by (simp add: eval_defs rpn_neg_power)

lemma takeWhile_isalpha_all: "list_all isalpha (takeWhile isalpha word)"
  by (induction word) simp_all

text \<open>
  C2. When the tokenizer meets \<^verbatim>\<open>-\<close>, it emits the function token \<^verbatim>\<open>_\<close> (unary
  negation) exactly when no token has been emitted yet or the last one is a left
  parenthesis or an operator, and the operator token \<^verbatim>\<open>-\<close> otherwise. The name
  \<^verbatim>\<open>_\<close> is none of \<^verbatim>\<open>sin\<close>, \<^verbatim>\<open>cos\<close>, \<^verbatim>\<open>tan\<close>, \<^verbatim>\<open>sqrt\<close>, and no run of letters
  read from the input is \<^verbatim>\<open>_\<close>. So \<^verbatim>\<open>-5+3\<close> is \<open>-2\<close> and \<^verbatim>\<open>3-(-2)\<close> is 5.
\<close>

theorem tokenize_minus:
  "(\<forall>cs tokens.
      tokenize_from (CHR ''-'' # cs) tokens =
        tokenize_from cs (tokens @
          [if tokens = [] \<or> type' (last tokens) = LeftParen \<or> type' (last tokens) = Operator
           then fn ''_'' else opr ''-''])) \<and>
   ''_'' \<notin> {''sin'', ''cos'', ''tan'', ''sqrt''} \<and>
   (\<forall>word. takeWhile isalpha word \<noteq> ''_'') \<and>
   evaluate exact ''-5+3'' = Inr (- 2) \<and>
   evaluate exact ''3-(-2)'' = Inr 5"
proof -
  have minus: "\<forall>cs tokens.
      tokenize_from (CHR ''-'' # cs) tokens =
        tokenize_from cs (tokens @
          [if tokens = [] \<or> type' (last tokens) = LeftParen \<or> type' (last tokens) = Operator
           then fn ''_'' else opr ''-''])"
    by (simp add: isspace_def isnumchar_def isdigit_def isalpha_def)
  have names: "''_'' \<notin> {''sin'', ''cos'', ''tan'', ''sqrt''}"
    by simp
  have marker: "\<forall>word. takeWhile isalpha word \<noteq> ''_''"
  proof (intro allI notI)
    fix word
    assume "takeWhile isalpha word = ''_''"
    with takeWhile_isalpha_all [of word] have "isalpha (CHR ''_'')" by simp
    then show False by (simp add: isalpha_def)
  qed
  have e1: "evaluate exact ''-5+3'' = Inr (- 2)"
    using evaluate_neg_sum [of exact 5 3] by (simp add: exact_literals exact_ops)
  have e2: "evaluate exact ''3-(-2)'' = Inr 5"
    using evaluate_minus_neg [of exact 3 2] by (simp add: exact_literals exact_ops)
  from minus names marker e1 e2 show ?thesis by blast
qed

text \<open>
  C10. Unary negation binds tighter than every binary operator, \<^verbatim>\<open>^\<close> included: when
  an operator token arrives and a function token is on top of the operator stack, the
  parser moves the function to the output before it pushes the operator, whatever the
  operator is. So in \<^verbatim>\<open>-2^2\<close> the minus applies to the base: the postfix form is
  \<^verbatim>\<open>2 _ 2 ^\<close> and the value is \<open>(-2)\<^sup>2 = 4\<close>, not \<open>-(2\<^sup>2) = -4\<close>.
\<close>

theorem unary_minus_binds_tightest:
  "(\<forall>token f operators output.
      type' f = Function \<longrightarrow>
      pop_operators token (f # operators) output =
        pop_operators token operators (output @ [f])) \<and>
   shuntingYard (tokenize ''-2^2'') = Inr [num ''2'', fn ''_'', num ''2'', opr ''^''] \<and>
   (\<forall>A two. strtod A ''2'' = Some two \<longrightarrow>
      evaluate A ''-2^2'' = Inr (fpow A (fneg A two) two)) \<and>
   evaluate exact ''-2^2'' = Inr 4"
proof -
  have pop: "\<forall>token f operators output.
      type' f = Function \<longrightarrow>
      pop_operators token (f # operators) output =
        pop_operators token operators (output @ [f])"
    by simp
  have shape: "\<forall>A two. strtod A ''2'' = Some two \<longrightarrow>
      evaluate A ''-2^2'' = Inr (fpow A (fneg A two) two)"
    by (simp add: evaluate_neg_power)
  have e: "evaluate exact ''-2^2'' = Inr 4"
    using evaluate_neg_power [of exact 2]
    by (simp add: exact_literals exact_ops exact_pow_values)
  from pop shape e rpn_neg_power show ?thesis by blast
qed

theorem unary_minus_binds_tightest_witness:
  "type' (fn ''_'') = Function \<and>
   pop_operators (opr ''^'') [fn ''_''] [num ''2''] =
     pop_operators (opr ''^'') [] ([num ''2''] @ [fn ''_'']) \<and>
   pop_operators (opr ''^'') [fn ''_''] [num ''2''] = ([], [num ''2'', fn ''_'']) \<and>
   strtod exact ''2'' = Some 2 \<and>
   evaluate exact ''-2^2'' = Inr (fpow exact (fneg exact 2) 2) \<and>
   fpow exact (fneg exact 2) 2 = 4"
proof -
  have t: "type' (fn ''_'') = Function" by simp
  have l: "strtod exact ''2'' = Some (2::real)" by (simp add: exact_literals)
  have pop: "pop_operators (opr ''^'') (fn ''_'' # []) [num ''2''] =
      pop_operators (opr ''^'') [] ([num ''2''] @ [fn ''_''])"
    by (rule unary_minus_binds_tightest [THEN conjunct1, rule_format]) (rule t)
  have ev: "evaluate exact ''-2^2'' = Inr (fpow exact (fneg exact 2) 2)"
    by (rule unary_minus_binds_tightest
          [THEN conjunct2, THEN conjunct2, THEN conjunct1, rule_format]) (rule l)
  from pop t ev l show ?thesis
    by (simp add: exact_ops exact_pow_values)
qed

section \<open>The evaluator\<close>

text \<open>The loop over a postfix sequence runs its first part, then the rest.\<close>

lemma solveRPN_loop_append:
  "solveRPN_loop A (pre @ post) stack =
     (case solveRPN_loop A pre stack of
        Inl e \<Rightarrow> Inl e
      | Inr stack' \<Rightarrow> solveRPN_loop A post stack')"
  by (induction pre arbitrary: stack) (simp_all split: sum.splits)

lemma rpn_percent:
  "shuntingYard (tokenize ''5%3'') = Inr [num ''5'', num ''3'', opr ''%'']"
  by (simp add: parse_defs)

lemma rpn_sum_percent:
  "shuntingYard (tokenize ''2+5%3'') =
     Inr [num ''2'', num ''5'', num ''3'', opr ''%'', opr ''+'']"
  by (simp add: parse_defs)

lemma step_percent: "solveRPN_step A (opr ''%'') (b # a # stack) = Inr stack"
  by (simp add: solveRPN_step_def)

text \<open>
  C3. The tokenizer emits \<^verbatim>\<open>%\<close> as an operator token and the parser ranks it with
  precedence 2, like \<^verbatim>\<open>*\<close> and \<^verbatim>\<open>/\<close>. The evaluator has no branch for it: applied
  to a stack with operands \<open>a\<close> and \<open>b\<close> on top, it removes both and pushes nothing,
  so what follows runs on the stack below them and no value computed from \<open>a\<close> and
  \<open>b\<close> exists. \<^verbatim>\<open>5%3\<close> ends with an empty stack and fails.
\<close>

theorem percent_has_no_evaluation_rule:
  "(\<forall>cs tokens.
      tokenize_from (CHR ''%'' # cs) tokens = tokenize_from cs (tokens @ [opr ''%''])) \<and>
   getPrecedence ''%'' = 2 \<and>
   shuntingYard (tokenize ''2+5%3'') =
     Inr [num ''2'', num ''5'', num ''3'', opr ''%'', opr ''+''] \<and>
   (\<forall>(A :: 'd arith) a b stack. solveRPN_step A (opr ''%'') (b # a # stack) = Inr stack) \<and>
   (\<forall>(A :: 'd arith) a b stack rpn.
      solveRPN_loop A (opr ''%'' # rpn) (b # a # stack) = solveRPN_loop A rpn stack) \<and>
   evaluate exact ''5%3'' = Inl (runtime_error ''Invalid expression'')"
proof -
  have tok: "\<forall>cs tokens.
      tokenize_from (CHR ''%'' # cs) tokens = tokenize_from cs (tokens @ [opr ''%''])"
    by (simp add: isspace_def isnumchar_def isdigit_def isalpha_def)
  have prec: "getPrecedence ''%'' = 2"
    by (simp add: getPrecedence_def)
  have step: "\<forall>(A :: 'd arith) a b stack.
      solveRPN_step A (opr ''%'') (b # a # stack) = Inr stack"
    by (simp add: step_percent)
  have loop: "\<forall>(A :: 'd arith) a b stack rpn.
      solveRPN_loop A (opr ''%'' # rpn) (b # a # stack) = solveRPN_loop A rpn stack"
    by (simp add: step_percent)
  have e: "evaluate exact ''5%3'' = Inl (runtime_error ''Invalid expression'')"
    by (simp add: eval_defs rpn_percent exact_literals)
  from tok prec rpn_sum_percent step loop e show ?thesis by blast
qed

lemma rpn_quotient:
  "shuntingYard (tokenize ''5/0'') = Inr [num ''5'', num ''0'', opr ''/'']"
  by (simp add: parse_defs)

lemma evaluate_quotient:
  "strtod A ''5'' = Some five \<Longrightarrow> strtod A ''0'' = Some zero \<Longrightarrow>
   evaluate A ''5/0'' =
     (if is_zero A zero then Inl (runtime_error ''Division by zero'')
      else Inr (fdiv A five zero))"
  by (simp add: eval_defs rpn_quotient)

text \<open>
  C5. For the operator \<^verbatim>\<open>/\<close> with operands \<open>a\<close> (pushed first) and \<open>b\<close> on the
  stack, the evaluator throws "Division by zero" if and only if \<^verbatim>\<open>b == 0\<close>, and
  pushes \<^verbatim>\<open>a / b\<close> otherwise. \<^verbatim>\<open>5/0\<close> fails with "Division by zero".
\<close>

theorem division_by_zero:
  "(\<forall>(A :: 'd arith) a b stack.
      solveRPN_step A (opr ''/'') (b # a # stack) =
        (if is_zero A b then Inl (runtime_error ''Division by zero'')
         else Inr (fdiv A a b # stack))) \<and>
   (\<forall>(A :: 'd arith) a b stack.
      (solveRPN_step A (opr ''/'') (b # a # stack) = Inl (runtime_error ''Division by zero''))
        = is_zero A b) \<and>
   evaluate exact ''5/0'' = Inl (runtime_error ''Division by zero'')"
proof -
  have step: "\<forall>(A :: 'd arith) a b stack.
      solveRPN_step A (opr ''/'') (b # a # stack) =
        (if is_zero A b then Inl (runtime_error ''Division by zero'')
         else Inr (fdiv A a b # stack))"
    by (simp add: solveRPN_step_def)
  have iff: "\<forall>(A :: 'd arith) a b stack.
      (solveRPN_step A (opr ''/'') (b # a # stack) = Inl (runtime_error ''Division by zero''))
        = is_zero A b"
    by (simp add: solveRPN_step_def)
  have e: "evaluate exact ''5/0'' = Inl (runtime_error ''Division by zero'')"
    using evaluate_quotient [of exact 5 0] by (simp add: exact_literals exact_ops)
  from step iff e show ?thesis by blast
qed

lemma step_operator_underflow:
  "type' token = Operator \<Longrightarrow> length stack < 2 \<Longrightarrow>
   solveRPN_step A token stack = Inl (runtime_error ''Invalid expression'')"
  by (cases stack; cases "tl stack") (simp_all add: solveRPN_step_def)

lemma step_function_underflow:
  "type' token = Function \<Longrightarrow> length stack < 1 \<Longrightarrow>
   solveRPN_step A token stack = Inl (runtime_error ''Invalid function call'')"
  by (simp add: solveRPN_step_def)

lemma solveRPN_step_fails:
  "solveRPN_loop A pre [] = Inr stack \<Longrightarrow> solveRPN_step A token stack = Inl e \<Longrightarrow>
   solveRPN A (pre @ token # post) = Inl e"
  by (simp add: solveRPN_def solveRPN_loop_append)

lemma rpn_trailing_plus:
  "shuntingYard (tokenize ''2+'') = Inr [num ''2'', opr ''+'']"
  by (simp add: parse_defs)

lemma rpn_sin: "shuntingYard (tokenize ''sin'') = Inr [fn ''sin'']"
  by (simp add: parse_defs)

text \<open>
  C7. During postfix evaluation an \<open>Operator\<close> token met with fewer than two values
  on the stack fails, and a \<open>Function\<close> token met with an empty stack fails; the loop
  stops there and \<open>solveRPN\<close> throws. The code has no error classes of its own: the
  error the specification calls InsufficientOperandsError is the \<^verbatim>\<open>std::runtime_error\<close>
  thrown at line 198 with the message "Invalid expression" for an operator, and the one
  thrown at line 222 with the message "Invalid function call" for a function.
\<close>

theorem insufficient_operands:
  "(\<forall>(A :: 'd arith) token stack.
      type' token = Operator \<and> length stack < 2 \<longrightarrow>
      solveRPN_step A token stack = Inl (runtime_error ''Invalid expression'')) \<and>
   (\<forall>(A :: 'd arith) token stack.
      type' token = Function \<and> length stack < 1 \<longrightarrow>
      solveRPN_step A token stack = Inl (runtime_error ''Invalid function call'')) \<and>
   (\<forall>(A :: 'd arith) pre token post stack.
      solveRPN_loop A pre [] = Inr stack \<and> type' token = Operator \<and> length stack < 2 \<longrightarrow>
      solveRPN A (pre @ token # post) = Inl (runtime_error ''Invalid expression'')) \<and>
   (\<forall>(A :: 'd arith) pre token post stack.
      solveRPN_loop A pre [] = Inr stack \<and> type' token = Function \<and> length stack < 1 \<longrightarrow>
      solveRPN A (pre @ token # post) = Inl (runtime_error ''Invalid function call'')) \<and>
   evaluate exact ''2+'' = Inl (runtime_error ''Invalid expression'') \<and>
   evaluate exact ''sin'' = Inl (runtime_error ''Invalid function call'')"
proof -
  have e1: "evaluate exact ''2+'' = Inl (runtime_error ''Invalid expression'')"
    by (simp add: eval_defs rpn_trailing_plus exact_literals)
  have e2: "evaluate exact ''sin'' = Inl (runtime_error ''Invalid function call'')"
    by (simp add: eval_defs rpn_sin)
  show ?thesis
    using e1 e2
    by (intro conjI allI impI)
       (auto intro: step_operator_underflow step_function_underflow
               solveRPN_step_fails [OF _ step_operator_underflow]
               solveRPN_step_fails [OF _ step_function_underflow])
qed

theorem insufficient_operands_witness:
  "type' (opr ''+'') = Operator \<and> length [2 :: real] < 2 \<and>
   solveRPN_step exact (opr ''+'') [2] = Inl (runtime_error ''Invalid expression'') \<and>
   type' (fn ''sin'') = Function \<and> length ([] :: real list) < 1 \<and>
   solveRPN_step exact (fn ''sin'') [] = Inl (runtime_error ''Invalid function call'') \<and>
   solveRPN_loop exact [num ''2''] [] = Inr [2] \<and>
   solveRPN exact ([num ''2''] @ opr ''+'' # []) = Inl (runtime_error ''Invalid expression'') \<and>
   solveRPN_loop exact [] [] = Inr [] \<and>
   solveRPN exact ([] @ fn ''sin'' # [num ''2'']) = Inl (runtime_error ''Invalid function call'')"
proof -
  have h1: "type' (opr ''+'') = Operator \<and> length [2 :: real] < 2" by simp
  have h2: "type' (fn ''sin'') = Function \<and> length ([] :: real list) < 1" by simp
  have l1: "solveRPN_loop exact [num ''2''] [] = Inr [2]"
    by (simp add: solveRPN_step_def stod_def strtod_subject_def isdigit_def exact_literals)
  have l2: "solveRPN_loop exact [] [] = Inr []" by simp
  note inst = insufficient_operands [where ?'d = real]
  have c1: "solveRPN_step exact (opr ''+'') [2] = Inl (runtime_error ''Invalid expression'')"
    by (rule inst [THEN conjunct1, rule_format]) (rule h1)
  have c2: "solveRPN_step exact (fn ''sin'') [] = Inl (runtime_error ''Invalid function call'')"
    by (rule inst [THEN conjunct2, THEN conjunct1, rule_format]) (rule h2)
  have c3: "solveRPN exact ([num ''2''] @ opr ''+'' # []) =
      Inl (runtime_error ''Invalid expression'')"
    by (rule inst [THEN conjunct2, THEN conjunct2, THEN conjunct1, rule_format])
       (intro conjI, rule l1, simp_all)
  have c4: "solveRPN exact ([] @ fn ''sin'' # [num ''2'']) =
      Inl (runtime_error ''Invalid function call'')"
    by (rule inst [THEN conjunct2, THEN conjunct2, THEN conjunct2, THEN conjunct1, rule_format])
       simp
  from h1 h2 l1 l2 c1 c2 c3 c4 show ?thesis by blast
qed

lemma rpn_empty: "shuntingYard (tokenize '''') = Inr []"
  by (simp add: parse_defs)

lemma rpn_two_numbers: "shuntingYard (tokenize ''1 2'') = Inr [num ''1'', num ''2'']"
  by (simp add: parse_defs)

text \<open>
  C8. When the loop of \<open>solveRPN\<close> has consumed every token, the function throws
  "Invalid expression" (the specification's InvalidExpressionError, line 241) whenever
  the stack does not hold exactly one value, and returns the value otherwise. The empty
  expression leaves no value and \<^verbatim>\<open>1 2\<close> leaves two, so both fail.
\<close>

theorem final_stack_check:
  "(\<forall>(A :: 'd arith) rpn stack.
      solveRPN_loop A rpn [] = Inr stack \<and> length stack \<noteq> 1 \<longrightarrow>
      solveRPN A rpn = Inl (runtime_error ''Invalid expression'')) \<and>
   (\<forall>(A :: 'd arith) rpn d.
      solveRPN_loop A rpn [] = Inr [d] \<longrightarrow> solveRPN A rpn = Inr d) \<and>
   (\<forall>(A :: 'd arith). evaluate A '''' = Inl (runtime_error ''Invalid expression'')) \<and>
   evaluate exact ''1 2'' = Inl (runtime_error ''Invalid expression'')"
proof -
  have many: "\<forall>(A :: 'd arith) rpn stack.
      solveRPN_loop A rpn [] = Inr stack \<and> length stack \<noteq> 1 \<longrightarrow>
      solveRPN A rpn = Inl (runtime_error ''Invalid expression'')"
    by (simp add: solveRPN_def)
  have one: "\<forall>(A :: 'd arith) rpn d.
      solveRPN_loop A rpn [] = Inr [d] \<longrightarrow> solveRPN A rpn = Inr d"
    by (simp add: solveRPN_def)
  have e1: "\<forall>(A :: 'd arith). evaluate A '''' = Inl (runtime_error ''Invalid expression'')"
    by (simp add: evaluate_def rpn_empty solveRPN_def)
  have e2: "evaluate exact ''1 2'' = Inl (runtime_error ''Invalid expression'')"
    by (simp add: eval_defs rpn_two_numbers exact_literals)
  from many one e1 e2 show ?thesis by blast
qed

theorem final_stack_check_witness:
  "solveRPN_loop exact [num ''1'', num ''2''] [] = Inr [2, 1] \<and> length [2, 1 :: real] \<noteq> 1 \<and>
   solveRPN exact [num ''1'', num ''2''] = Inl (runtime_error ''Invalid expression'') \<and>
   solveRPN_loop exact [num ''1''] [] = Inr [1] \<and>
   solveRPN exact [num ''1''] = Inr 1"
proof -
  have l1: "solveRPN_loop exact [num ''1'', num ''2''] [] = Inr [2, 1]"
    by (simp add: solveRPN_step_def stod_def strtod_subject_def isdigit_def exact_literals)
  have l2: "solveRPN_loop exact [num ''1''] [] = Inr [1]"
    by (simp add: solveRPN_step_def stod_def strtod_subject_def isdigit_def exact_literals)
  note inst = final_stack_check [where ?'d = real]
  have c1: "solveRPN exact [num ''1'', num ''2''] = Inl (runtime_error ''Invalid expression'')"
    by (rule inst [THEN conjunct1, rule_format, of _ _ "[2, 1]"])
       (intro conjI, rule l1, simp)
  have c2: "solveRPN exact [num ''1''] = Inr 1"
    by (rule inst [THEN conjunct2, THEN conjunct1, rule_format]) (rule l2)
  from l1 l2 c1 c2 show ?thesis by simp
qed

section \<open>Function names\<close>

lemma isalpha_other_classes: "isalpha c \<Longrightarrow> \<not> isspace c \<and> \<not> isnumchar c"
  by (auto simp: isalpha_def isspace_def isnumchar_def isdigit_def Let_def)

lemma takeWhile_run:
  "list_all P run \<Longrightarrow> rest = [] \<or> \<not> P (hd rest) \<Longrightarrow>
   takeWhile P (run @ rest) = run \<and> dropWhile P (run @ rest) = rest"
  by (induction run) (cases rest; simp)+

lemma tokenize_from_word:
  assumes "word \<noteq> []" and "list_all isalpha word" and "rest = [] \<or> \<not> isalpha (hd rest)"
  shows "tokenize_from (word @ rest) tokens = tokenize_from rest (tokens @ [fn word])"
proof -
  from assms(1) obtain c cs where word: "word = c # cs" by (cases word) auto
  with assms(2) have c: "isalpha c" by simp
  have run: "takeWhile isalpha (c # cs @ rest) = word \<and> dropWhile isalpha (c # cs @ rest) = rest"
    using takeWhile_run [OF assms(2) assms(3)] word by simp
  show ?thesis
    using isalpha_other_classes [OF c] c run unfolding word
    by (simp del: takeWhile.simps dropWhile.simps)
qed

lemma step_unknown_function:
  "type' token = Function \<Longrightarrow> value' token \<notin> {''_'', ''sin'', ''cos'', ''tan'', ''sqrt''} \<Longrightarrow>
   solveRPN_step A token (a # stack) = Inl (runtime_error (''Unknown function: '' @ value' token))"
  by (simp add: solveRPN_step_def)

lemma rpn_foo_call: "shuntingYard (tokenize ''foo(1)'') = Inr [num ''1'', fn ''foo'']"
  by (simp add: parse_defs)

lemma rpn_foo_empty_call: "shuntingYard (tokenize ''foo()'') = Inr [fn ''foo'']"
  by (simp add: parse_defs)

text \<open>
  C9, as stated, fails where the function token meets an empty stack: the stack check
  of line 221 comes before the name is looked at, so \<^verbatim>\<open>foo()\<close>, whose postfix form is
  the single token \<^verbatim>\<open>foo\<close>, throws "Invalid function call" and not
  "Unknown function: foo".
\<close>

theorem unknown_function_empty_stack:
  "type' (fn ''foo'') = Function \<and>
   value' (fn ''foo'') \<notin> {''_'', ''sin'', ''cos'', ''tan'', ''sqrt''} \<and>
   solveRPN_step exact (fn ''foo'') [] = Inl (runtime_error ''Invalid function call'') \<and>
   evaluate exact ''foo()'' = Inl (runtime_error ''Invalid function call'') \<and>
   evaluate exact ''foo()'' \<noteq> Inl (runtime_error (''Unknown function: '' @ ''foo''))"
  by (simp add: eval_defs rpn_foo_empty_call)

text \<open>
  C9, amended. A maximal run of letters becomes one \<open>Function\<close> token, whatever the
  word. At evaluation a \<open>Function\<close> token whose name is none of \<^verbatim>\<open>_\<close>, \<^verbatim>\<open>sin\<close>,
  \<^verbatim>\<open>cos\<close>, \<^verbatim>\<open>tan\<close>, \<^verbatim>\<open>sqrt\<close>, met with at least one value on the stack, throws
  "Unknown function: " followed by the token's text, and \<open>solveRPN\<close> throws it
  whatever follows. \<^verbatim>\<open>foo(1)\<close> throws "Unknown function: foo".
\<close>

theorem unknown_function:
  "(\<forall>word rest tokens.
      word \<noteq> [] \<and> list_all isalpha word \<and> (rest = [] \<or> \<not> isalpha (hd rest)) \<longrightarrow>
      tokenize_from (word @ rest) tokens = tokenize_from rest (tokens @ [fn word])) \<and>
   (\<forall>(A :: 'd arith) token a stack.
      type' token = Function \<and>
      value' token \<notin> {''_'', ''sin'', ''cos'', ''tan'', ''sqrt''} \<longrightarrow>
      solveRPN_step A token (a # stack) =
        Inl (runtime_error (''Unknown function: '' @ value' token))) \<and>
   (\<forall>(A :: 'd arith) pre token post a stack.
      solveRPN_loop A pre [] = Inr (a # stack) \<and> type' token = Function \<and>
      value' token \<notin> {''_'', ''sin'', ''cos'', ''tan'', ''sqrt''} \<longrightarrow>
      solveRPN A (pre @ token # post) =
        Inl (runtime_error (''Unknown function: '' @ value' token))) \<and>
   shuntingYard (tokenize ''foo(1)'') = Inr [num ''1'', fn ''foo''] \<and>
   evaluate exact ''foo(1)'' = Inl (runtime_error ''Unknown function: foo'')"
proof -
  have tok: "\<forall>word rest tokens.
      word \<noteq> [] \<and> list_all isalpha word \<and> (rest = [] \<or> \<not> isalpha (hd rest)) \<longrightarrow>
      tokenize_from (word @ rest) tokens = tokenize_from rest (tokens @ [fn word])"
    by (intro allI impI, elim conjE, rule tokenize_from_word)
  have step: "\<forall>(A :: 'd arith) token a stack.
      type' token = Function \<and>
      value' token \<notin> {''_'', ''sin'', ''cos'', ''tan'', ''sqrt''} \<longrightarrow>
      solveRPN_step A token (a # stack) =
        Inl (runtime_error (''Unknown function: '' @ value' token))"
    by (intro allI impI, elim conjE, rule step_unknown_function)
  have run: "\<forall>(A :: 'd arith) pre token post a stack.
      solveRPN_loop A pre [] = Inr (a # stack) \<and> type' token = Function \<and>
      value' token \<notin> {''_'', ''sin'', ''cos'', ''tan'', ''sqrt''} \<longrightarrow>
      solveRPN A (pre @ token # post) =
        Inl (runtime_error (''Unknown function: '' @ value' token))"
    by (intro allI impI, elim conjE, rule solveRPN_step_fails [OF _ step_unknown_function])
  have e: "evaluate exact ''foo(1)'' = Inl (runtime_error ''Unknown function: foo'')"
    by (simp add: eval_defs rpn_foo_call exact_literals)
  show ?thesis
    by (intro conjI, rule tok, rule step, rule run, rule rpn_foo_call, rule e)
qed

theorem unknown_function_witness:
  "''foo'' \<noteq> [] \<and> list_all isalpha ''foo'' \<and> \<not> isalpha (hd ''(1)'') \<and>
   tokenize_from (''foo'' @ ''(1)'') [] = tokenize_from ''(1)'' ([] @ [fn ''foo'']) \<and>
   type' (fn ''foo'') = Function \<and>
   value' (fn ''foo'') \<notin> {''_'', ''sin'', ''cos'', ''tan'', ''sqrt''} \<and>
   solveRPN_step exact (fn ''foo'') [1] = Inl (runtime_error ''Unknown function: foo'') \<and>
   solveRPN_loop exact [num ''1''] [] = Inr [1] \<and>
   solveRPN exact ([num ''1''] @ fn ''foo'' # []) = Inl (runtime_error ''Unknown function: foo'')"
proof -
  have h1: "''foo'' \<noteq> [] \<and> list_all isalpha ''foo'' \<and> (''(1)'' = [] \<or> \<not> isalpha (hd ''(1)''))"
    by (simp add: isalpha_def)
  have h2: "type' (fn ''foo'') = Function \<and>
      value' (fn ''foo'') \<notin> {''_'', ''sin'', ''cos'', ''tan'', ''sqrt''}"
    by simp
  have l: "solveRPN_loop exact [num ''1''] [] = Inr [1]"
    by (simp add: solveRPN_step_def stod_def strtod_subject_def isdigit_def exact_literals)
  note inst = unknown_function [where ?'d = real]
  have c1: "tokenize_from (''foo'' @ ''(1)'') [] = tokenize_from ''(1)'' ([] @ [fn ''foo''])"
    by (rule inst [THEN conjunct1, rule_format]) (rule h1)
  have c2: "solveRPN_step exact (fn ''foo'') (1 # []) =
      Inl (runtime_error (''Unknown function: '' @ value' (fn ''foo'')))"
    by (rule inst [THEN conjunct2, THEN conjunct1, rule_format]) (rule h2)
  have c3: "solveRPN exact ([num ''1''] @ fn ''foo'' # []) =
      Inl (runtime_error (''Unknown function: '' @ value' (fn ''foo'')))"
    by (rule inst [THEN conjunct2, THEN conjunct2, THEN conjunct1, rule_format, of _ _ 1 "[]"])
       (intro conjI, rule l, simp_all)
  from h1 h2 l c1 c2 c3 show ?thesis by simp
qed

section \<open>Parentheses\<close>

text \<open>
  The parser keeps as many left parentheses on its operator stack as are open in the
  input read so far: an \<open>Operator\<close> token pops none of them, a \<open>RightParen\<close> token
  pops exactly the nearest one.
\<close>

lemma open_parens_simps:
  "open_parens [] = 0"
  "open_parens (t # ops) = (if type' t = LeftParen then Suc (open_parens ops) else open_parens ops)"
  by (simp_all add: open_parens_def)

lemma open_parens_zero: "(open_parens ops = 0) = (LeftParen \<notin> set (map type' ops))"
  by (induction ops) (auto simp: open_parens_simps)

lemma pop_operators_parens:
  "pop_operators token ops out = (ops', out') \<Longrightarrow> open_parens ops' = open_parens ops"
proof (induction ops arbitrary: out)
  case Nil
  then show ?case by simp
next
  case (Cons t ops)
  then show ?case by (auto simp: open_parens_simps split: if_splits)
qed

lemma pop_to_paren_parens:
  "pop_to_paren ops out = (ops', out') \<Longrightarrow>
   open_parens ops' = open_parens ops \<and>
   (case ops' of [] \<Rightarrow> True | t # _ \<Rightarrow> type' t = LeftParen)"
proof (induction ops arbitrary: out)
  case Nil
  then show ?case by (auto simp: open_parens_simps)
next
  case (Cons t ops)
  then show ?case by (auto simp: open_parens_simps split: if_splits)
qed

lemma step_RightParen_closed:
  assumes "type' token = RightParen" and "open_parens ops = 0"
  shows "shuntingYard_step token ops out = Inl (runtime_error ''Mismatched parentheses'')"
proof -
  obtain ops' out' where p: "pop_to_paren ops out = (ops', out')" by (cases "pop_to_paren ops out")
  from pop_to_paren_parens [OF p] assms(2) have "ops' = []"
    by (cases ops') (auto simp: open_parens_simps)
  with p assms(1) show ?thesis by (simp add: shuntingYard_step_def)
qed

lemma step_RightParen_open:
  assumes "type' token = RightParen" and "open_parens ops = Suc n"
  shows "\<exists>ops' out'. shuntingYard_step token ops out = Inr (ops', out') \<and> open_parens ops' = n"
proof -
  obtain ops1 out1 where p: "pop_to_paren ops out = (ops1, out1)" by (cases "pop_to_paren ops out")
  from pop_to_paren_parens [OF p] assms(2) obtain t ops2
    where ops1: "ops1 = t # ops2" and t: "type' t = LeftParen" and n: "open_parens ops2 = n"
    by (cases ops1) (auto simp: open_parens_simps)
  show ?thesis
  proof (cases ops2)
    case Nil
    with p ops1 assms(1) n show ?thesis by (simp add: shuntingYard_step_def)
  next
    case (Cons f ops3)
    with p ops1 assms(1) n show ?thesis
      by (auto simp: shuntingYard_step_def open_parens_simps)
  qed
qed

lemma step_other:
  assumes "type' token \<noteq> RightParen"
  shows "\<exists>ops' out'. shuntingYard_step token ops out = Inr (ops', out') \<and>
           open_parens ops' =
             (if type' token = LeftParen then Suc (open_parens ops) else open_parens ops)"
proof (cases "type' token")
  case Operator
  obtain ops1 out1 where p: "pop_operators token ops out = (ops1, out1)"
    by (cases "pop_operators token ops out")
  with Operator pop_operators_parens [OF p] show ?thesis
    by (simp add: shuntingYard_step_def open_parens_simps)
qed (use assms in \<open>simp_all add: shuntingYard_step_def open_parens_simps\<close>)

lemma shuntingYard_loop_depth:
  "(case paren_depth tokens (open_parens ops) of
      None \<Rightarrow> shuntingYard_loop tokens ops out = Inl (runtime_error ''Mismatched parentheses'')
    | Some m \<Rightarrow> \<exists>ops' out'. shuntingYard_loop tokens ops out = Inr (ops', out') \<and>
                  open_parens ops' = m)"
proof (induction tokens arbitrary: ops out)
  case Nil
  then show ?case by simp
next
  case (Cons token tokens)
  show ?case
  proof (cases "type' token = RightParen")
    case True
    show ?thesis
    proof (cases "open_parens ops")
      case 0
      with True step_RightParen_closed [of token ops out] show ?thesis by simp
    next
      case (Suc n)
      from step_RightParen_open [OF True Suc, of out] obtain ops' out'
        where s: "shuntingYard_step token ops out = Inr (ops', out')" and n: "open_parens ops' = n"
        by blast
      from Cons.IH [of ops' out'] True Suc s n show ?thesis
        by (simp split: option.splits)
    qed
  next
    case False
    from step_other [OF False, of ops out] obtain ops' out'
      where s: "shuntingYard_step token ops out = Inr (ops', out')"
        and n: "open_parens ops' =
          (if type' token = LeftParen then Suc (open_parens ops) else open_parens ops)"
      by blast
    show ?thesis
    proof (cases "type' token = LeftParen")
      case True
      with Cons.IH [of ops' out'] s n show ?thesis
        by (simp split: option.splits)
    next
      case notLeft: False
      with Cons.IH [of ops' out'] False s n show ?thesis
        by (simp split: option.splits)
    qed
  qed
qed

lemma flush_operators_closed:
  "open_parens ops = 0 \<Longrightarrow> \<exists>rpn. flush_operators ops out = Inr rpn"
  by (induction ops arbitrary: out) (auto simp: open_parens_simps split: if_splits)

lemma flush_operators_open:
  "0 < open_parens ops \<Longrightarrow>
   flush_operators ops out = Inl (runtime_error ''Mismatched parentheses'')"
  by (induction ops arbitrary: out) (auto simp: open_parens_simps split: if_splits)

lemma shuntingYard_balanced: "balanced tokens \<Longrightarrow> \<exists>rpn. shuntingYard tokens = Inr rpn"
  using shuntingYard_loop_depth [of tokens "[]" "[]"] flush_operators_closed
  by (auto simp: balanced_def shuntingYard_def open_parens_simps)

lemma shuntingYard_unbalanced:
  assumes "\<not> balanced tokens"
  shows "shuntingYard tokens = Inl (runtime_error ''Mismatched parentheses'')"
proof (cases "paren_depth tokens 0")
  case None
  with shuntingYard_loop_depth [of tokens "[]" "[]"] show ?thesis
    by (simp add: shuntingYard_def open_parens_simps)
next
  case (Some m)
  with assms have m: "0 < m" by (simp add: balanced_def)
  from Some shuntingYard_loop_depth [of tokens "[]" "[]"] obtain ops' out'
    where "shuntingYard_loop tokens [] [] = Inr (ops', out')" and "open_parens ops' = m"
    by (auto simp: open_parens_simps)
  with m flush_operators_open [of ops' out'] show ?thesis
    by (simp add: shuntingYard_def)
qed

lemma shuntingYard_fails_iff:
  "(shuntingYard tokens = Inl (runtime_error ''Mismatched parentheses'')) = (\<not> balanced tokens)"
  using shuntingYard_balanced [of tokens] shuntingYard_unbalanced [of tokens]
  by (cases "balanced tokens") auto

lemma shuntingYard_succeeds_iff:
  "(\<exists>rpn. shuntingYard tokens = Inr rpn) = balanced tokens"
  using shuntingYard_balanced [of tokens] shuntingYard_unbalanced [of tokens]
  by (cases "balanced tokens") auto

lemma parse_open: "shuntingYard (tokenize ''(1+2'') = Inl (runtime_error ''Mismatched parentheses'')"
  by (simp add: parse_defs)

lemma parse_close: "shuntingYard (tokenize ''1+2)'') = Inl (runtime_error ''Mismatched parentheses'')"
  by (simp add: parse_defs)

text \<open>
  C6. The conversion to postfix throws "Mismatched parentheses" exactly when the
  parentheses of the token sequence do not balance, and returns a postfix sequence
  exactly when they do. A \<open>RightParen\<close> token that finds no \<open>LeftParen\<close> on the
  operator stack fails, and a \<open>LeftParen\<close> left on the stack at the end of the input
  fails. \<^verbatim>\<open>(1+2\<close> and \<^verbatim>\<open>1+2)\<close> both fail, in any arithmetic, since the parser runs
  before the evaluator.
\<close>

theorem mismatched_parentheses:
  "(\<forall>tokens.
      (shuntingYard tokens = Inl (runtime_error ''Mismatched parentheses'')) =
        (\<not> balanced tokens)) \<and>
   (\<forall>tokens. (\<exists>rpn. shuntingYard tokens = Inr rpn) = balanced tokens) \<and>
   (\<forall>token ops out.
      type' token = RightParen \<and> LeftParen \<notin> set (map type' ops) \<longrightarrow>
      shuntingYard_step token ops out = Inl (runtime_error ''Mismatched parentheses'')) \<and>
   (\<forall>ops out.
      LeftParen \<in> set (map type' ops) \<longrightarrow>
      flush_operators ops out = Inl (runtime_error ''Mismatched parentheses'')) \<and>
   (\<forall>A :: 'd arith. evaluate A ''(1+2'' = Inl (runtime_error ''Mismatched parentheses'')) \<and>
   (\<forall>A :: 'd arith. evaluate A ''1+2)'' = Inl (runtime_error ''Mismatched parentheses''))"
proof -
  have fails: "\<forall>tokens.
      (shuntingYard tokens = Inl (runtime_error ''Mismatched parentheses'')) =
        (\<not> balanced tokens)"
    by (intro allI) (rule shuntingYard_fails_iff)
  have succeeds: "\<forall>tokens. (\<exists>rpn. shuntingYard tokens = Inr rpn) = balanced tokens"
    by (intro allI) (rule shuntingYard_succeeds_iff)
  have close: "\<forall>token ops out.
      type' token = RightParen \<and> LeftParen \<notin> set (map type' ops) \<longrightarrow>
      shuntingYard_step token ops out = Inl (runtime_error ''Mismatched parentheses'')"
    by (intro allI impI, elim conjE, rule step_RightParen_closed)
       (simp_all add: open_parens_zero)
  have rest: "\<forall>ops out.
      LeftParen \<in> set (map type' ops) \<longrightarrow>
      flush_operators ops out = Inl (runtime_error ''Mismatched parentheses'')"
  proof (intro allI impI)
    fix ops out :: "Token list"
    assume "LeftParen \<in> set (map type' ops)"
    then have "0 < open_parens ops" using open_parens_zero [of ops] by simp
    then show "flush_operators ops out = Inl (runtime_error ''Mismatched parentheses'')"
      by (rule flush_operators_open)
  qed
  have e1: "\<forall>A :: 'd arith.
      evaluate A ''(1+2'' = Inl (runtime_error ''Mismatched parentheses'')"
    by (simp add: evaluate_def parse_open)
  have e2: "\<forall>A :: 'd arith.
      evaluate A ''1+2)'' = Inl (runtime_error ''Mismatched parentheses'')"
    by (simp add: evaluate_def parse_close)
  show ?thesis
    by (intro conjI, rule fails, rule succeeds, rule close, rule rest, rule e1, rule e2)
qed

theorem mismatched_parentheses_witness:
  "type' rparen = RightParen \<and> LeftParen \<notin> set (map type' [opr ''+'']) \<and>
   shuntingYard_step rparen [opr ''+''] [num ''1'', num ''2''] =
     Inl (runtime_error ''Mismatched parentheses'') \<and>
   LeftParen \<in> set (map type' [opr ''+'', lparen]) \<and>
   flush_operators [opr ''+'', lparen] [num ''1'', num ''2''] =
     Inl (runtime_error ''Mismatched parentheses'') \<and>
   \<not> balanced (tokenize ''(1+2'') \<and> \<not> balanced (tokenize ''1+2)'') \<and>
   balanced (tokenize ''(1+2)'') \<and>
   shuntingYard (tokenize ''(1+2)'') = Inr [num ''1'', num ''2'', opr ''+'']"
proof -
  have h1: "type' rparen = RightParen \<and> LeftParen \<notin> set (map type' [opr ''+''])" by simp
  have h2: "LeftParen \<in> set (map type' [opr ''+'', lparen])" by simp
  have c1: "shuntingYard_step rparen [opr ''+''] [num ''1'', num ''2''] =
      Inl (runtime_error ''Mismatched parentheses'')"
    by (rule mismatched_parentheses
          [THEN conjunct2, THEN conjunct2, THEN conjunct1, rule_format]) (rule h1)
  have c2: "flush_operators [opr ''+'', lparen] [num ''1'', num ''2''] =
      Inl (runtime_error ''Mismatched parentheses'')"
    by (rule mismatched_parentheses
          [THEN conjunct2, THEN conjunct2, THEN conjunct2, THEN conjunct1, rule_format])
       (rule h2)
  have b1: "\<not> balanced (tokenize ''(1+2'')"
    by (simp add: balanced_def parse_defs)
  have b2: "\<not> balanced (tokenize ''1+2)'')"
    by (simp add: balanced_def parse_defs)
  have b3: "balanced (tokenize ''(1+2)'')"
    by (simp add: balanced_def parse_defs)
  have r: "shuntingYard (tokenize ''(1+2)'') = Inr [num ''1'', num ''2'', opr ''+'']"
    by (simp add: parse_defs)
  from h1 h2 c1 c2 b1 b2 b3 r show ?thesis by simp
qed

section \<open>Number tokens\<close>

text \<open>
  Every \<open>Number\<close> token that reaches \<open>solveRPN\<close> through \<open>evaluate\<close> holds a
  nonempty run of digits and dots: the tokenizer emits no other, and the parser only
  moves tokens.
\<close>

lemma takeWhile_all: "list_all P (takeWhile P xs)"
  by (induction xs) simp_all

lemma tokenize_from_number_texts:
  "list_all number_text tokens \<Longrightarrow> list_all number_text (tokenize_from s tokens)"
proof (induction s tokens rule: tokenize_from.induct)
  case (1 tokens)
  then show ?case by simp
next
  case (2 c cs tokens)
  have run: "list_all isnumchar (takeWhile isnumchar cs)" by (rule takeWhile_all)
  from 2 run show ?case
    by (simp add: number_text_def)
qed

lemma tokenize_number_texts: "list_all number_text (tokenize expr)"
  by (simp add: tokenize_def tokenize_from_number_texts)

lemma pop_operators_tokens:
  "pop_operators token ops out = (ops', out') \<Longrightarrow>
   set ops' \<subseteq> set ops \<and> set out' \<subseteq> set ops \<union> set out"
proof (induction ops arbitrary: out)
  case Nil
  then show ?case by simp
next
  case (Cons t ops)
  show ?case
  proof (cases "pop_operators token (t # ops) out = pop_operators token ops (out @ [t])")
    case True
    with Cons.prems have "pop_operators token ops (out @ [t]) = (ops', out')" by simp
    from Cons.IH [OF this] show ?thesis by auto
  next
    case False
    then have "pop_operators token (t # ops) out = (t # ops, out)"
      by (simp split: if_splits)
    with Cons.prems show ?thesis by auto
  qed
qed

lemma pop_to_paren_tokens:
  "pop_to_paren ops out = (ops', out') \<Longrightarrow>
   set ops' \<subseteq> set ops \<and> set out' \<subseteq> set ops \<union> set out"
proof (induction ops arbitrary: out)
  case Nil
  then show ?case by simp
next
  case (Cons t ops)
  show ?case
  proof (cases "type' t = LeftParen")
    case True
    with Cons.prems show ?thesis by auto
  next
    case False
    with Cons.prems have "pop_to_paren ops (out @ [t]) = (ops', out')" by simp
    from Cons.IH [OF this] show ?thesis by auto
  qed
qed

lemma shuntingYard_step_tokens:
  assumes "shuntingYard_step token ops out = Inr (ops', out')"
  shows "set ops' \<subseteq> insert token (set ops) \<and>
         set out' \<subseteq> insert token (set ops \<union> set out)"
proof (cases "type' token")
  case Number
  with assms show ?thesis by (auto simp: shuntingYard_step_def)
next
  case Function
  with assms show ?thesis by (auto simp: shuntingYard_step_def)
next
  case LeftParen
  with assms show ?thesis by (auto simp: shuntingYard_step_def)
next
  case Operator
  obtain ops1 out1 where p: "pop_operators token ops out = (ops1, out1)"
    by (cases "pop_operators token ops out")
  with assms Operator have "ops' = token # ops1" and "out' = out1"
    by (simp_all add: shuntingYard_step_def)
  with pop_operators_tokens [OF p] show ?thesis by auto
next
  case RightParen
  obtain ops1 out1 where p: "pop_to_paren ops out = (ops1, out1)"
    by (cases "pop_to_paren ops out")
  note sub = pop_to_paren_tokens [OF p]
  from assms RightParen p obtain paren ops2 where ops1: "ops1 = paren # ops2"
    by (cases ops1) (simp_all add: shuntingYard_step_def)
  show ?thesis
  proof (cases ops2)
    case Nil
    with assms RightParen p ops1 have "ops' = []" and "out' = out1"
      by (simp_all add: shuntingYard_step_def)
    with sub show ?thesis by auto
  next
    case (Cons f ops3)
    show ?thesis
    proof (cases "type' f = Function")
      case True
      with assms RightParen p ops1 Cons have "ops' = ops3" and "out' = out1 @ [f]"
        by (simp_all add: shuntingYard_step_def)
      with sub ops1 Cons show ?thesis by auto
    next
      case False
      with assms RightParen p ops1 Cons have "ops' = ops2" and "out' = out1"
        by (simp_all add: shuntingYard_step_def)
      with sub ops1 show ?thesis by auto
    qed
  qed
qed

lemma shuntingYard_loop_tokens:
  "shuntingYard_loop tokens ops out = Inr (ops', out') \<Longrightarrow>
   set ops' \<union> set out' \<subseteq> set tokens \<union> set ops \<union> set out"
proof (induction tokens arbitrary: ops out)
  case Nil
  then show ?case by auto
next
  case (Cons token tokens)
  from Cons.prems obtain ops1 out1
    where s: "shuntingYard_step token ops out = Inr (ops1, out1)"
      and l: "shuntingYard_loop tokens ops1 out1 = Inr (ops', out')"
    by (auto split: sum.splits)
  from Cons.IH [OF l] shuntingYard_step_tokens [OF s] show ?case by auto
qed

lemma flush_operators_tokens:
  "flush_operators ops out = Inr rpn \<Longrightarrow> set rpn \<subseteq> set ops \<union> set out"
proof (induction ops arbitrary: out)
  case Nil
  then show ?case by simp
next
  case (Cons t ops)
  then have "flush_operators ops (out @ [t]) = Inr rpn" by (simp split: if_splits)
  from Cons.IH [OF this] show ?case by auto
qed

lemma shuntingYard_tokens:
  assumes "shuntingYard tokens = Inr rpn"
  shows "set rpn \<subseteq> set tokens"
proof -
  from assms obtain ops out
    where l: "shuntingYard_loop tokens [] [] = Inr (ops, out)"
      and f: "flush_operators ops out = Inr rpn"
    by (auto simp: shuntingYard_def split: sum.splits)
  from shuntingYard_loop_tokens [OF l] flush_operators_tokens [OF f] show ?thesis by auto
qed

lemma evaluate_number_texts:
  "shuntingYard (tokenize expr) = Inr rpn \<Longrightarrow> list_all number_text rpn"
  using shuntingYard_tokens [of "tokenize expr" rpn] tokenize_number_texts [of expr]
  by (auto simp: list_all_iff)

section \<open>Exceptions and malformed numbers\<close>

lemma shuntingYard_step_exception:
  "shuntingYard_step token ops out = Inl e \<Longrightarrow> e = runtime_error ''Mismatched parentheses''"
  by (auto simp: shuntingYard_step_def split: TokenType.splits prod.splits list.splits if_splits)

lemma shuntingYard_loop_exception:
  "shuntingYard_loop tokens ops out = Inl e \<Longrightarrow> e = runtime_error ''Mismatched parentheses''"
  by (induction tokens arbitrary: ops out)
     (auto split: sum.splits dest: shuntingYard_step_exception)

lemma flush_operators_exception:
  "flush_operators ops out = Inl e \<Longrightarrow> e = runtime_error ''Mismatched parentheses''"
  by (induction ops arbitrary: out) (auto split: if_splits)

lemma shuntingYard_exception:
  "shuntingYard tokens = Inl e \<Longrightarrow> e = runtime_error ''Mismatched parentheses''"
  by (auto simp: shuntingYard_def split: sum.splits prod.splits
      dest: shuntingYard_loop_exception flush_operators_exception)

lemma stod_exception: "stod A t = Inl e \<Longrightarrow> e = invalid_argument \<or> e = out_of_range"
  by (auto simp: stod_def Let_def split: if_splits option.splits)

lemma stod_invalid_argument: "(stod A t = Inl invalid_argument) = (strtod_subject t = [])"
  by (auto simp: stod_def Let_def split: option.splits)

lemma solveRPN_step_exception:
  assumes "solveRPN_step A token stack = Inl e"
  shows "evaluate_exception e"
proof (cases "type' token")
  case Number
  with assms have "stod A (value' token) = Inl e"
    by (simp add: solveRPN_step_def split: sum.splits)
  then show ?thesis using stod_exception [of A "value' token" e]
    by (auto simp: evaluate_exception_def)
next
  case Operator
  with assms show ?thesis
    by (auto simp: solveRPN_step_def evaluate_exception_def split: list.splits if_splits)
next
  case Function
  with assms show ?thesis
    by (auto simp: solveRPN_step_def evaluate_exception_def split: list.splits if_splits)
next
  case LeftParen
  with assms show ?thesis by (simp add: solveRPN_step_def)
next
  case RightParen
  with assms show ?thesis by (simp add: solveRPN_step_def)
qed

lemma solveRPN_loop_exception:
  "solveRPN_loop A rpn stack = Inl e \<Longrightarrow> evaluate_exception e"
proof (induction rpn arbitrary: stack)
  case Nil
  then show ?case by simp
next
  case (Cons token rpn)
  show ?case
  proof (cases "solveRPN_step A token stack")
    case (Inl e')
    with Cons.prems have "e' = e" by simp
    with Inl show ?thesis by (simp add: solveRPN_step_exception)
  next
    case (Inr stack')
    with Cons.prems have "solveRPN_loop A rpn stack' = Inl e" by simp
    then show ?thesis by (rule Cons.IH)
  qed
qed

lemma solveRPN_exception: "solveRPN A rpn = Inl e \<Longrightarrow> evaluate_exception e"
  by (auto simp: solveRPN_def evaluate_exception_def split: sum.splits if_splits
      dest: solveRPN_loop_exception)

lemma evaluate_throws:
  assumes "evaluate A expression = Inl e"
  shows "evaluate_exception e"
proof (cases "shuntingYard (tokenize expression)")
  case (Inl e')
  with assms have "e' = e" by (simp add: evaluate_def)
  with Inl shuntingYard_exception [of "tokenize expression" e] show ?thesis
    by (simp add: evaluate_exception_def)
next
  case (Inr rpn)
  with assms have "solveRPN A rpn = Inl e" by (simp add: evaluate_def)
  then show ?thesis by (rule solveRPN_exception)
qed

lemma evaluate_returns_or_throws:
  "(\<exists>d. evaluate A expression = Inr d) \<or>
   (\<exists>e. evaluate A expression = Inl e \<and> evaluate_exception e)"
  by (cases "evaluate A expression") (simp_all add: evaluate_throws)

lemma strtod_subject_fails:
  assumes "t \<noteq> []" and "list_all isnumchar t"
  shows "(strtod_subject t = []) = (t = ''.'' \<or> take 2 t = ''..'')"
proof -
  from assms(1) obtain c cs where t: "t = c # cs" by (cases t) auto
  show ?thesis
  proof (cases "isdigit c")
    case True
    then have "c \<noteq> CHR ''.''" by (auto simp: isdigit_def)
    with True show ?thesis
      by (auto simp: t strtod_subject_def Let_def split: list.splits)
  next
    case False
    with assms(2) t have c: "c = CHR ''.''" by (simp add: isnumchar_def)
    show ?thesis
    proof (cases cs)
      case Nil
      with c False show ?thesis by (simp add: t strtod_subject_def)
    next
      case (Cons c' cs')
      with assms(2) t have "isdigit c' \<or> c' = CHR ''.''" by (simp add: isnumchar_def)
      moreover have "\<not> isdigit (CHR ''.'')" by (simp add: isdigit_def)
      ultimately show ?thesis
        using c False Cons by (auto simp: t strtod_subject_def)
    qed
  qed
qed

lemma rpn_dot: "shuntingYard (tokenize ''.'') = Inr [num ''.'']"
  by (simp add: parse_defs)

lemma tokenize_dots: "tokenize ''1.2.3'' = [num ''1.2.3'']"
  by (simp add: parse_defs)

lemma rpn_dots: "shuntingYard (tokenize ''1.2.3'') = Inr [num ''1.2.3'']"
  by (simp add: parse_defs)

lemma evaluate_dot: "evaluate A ''.'' = Inl invalid_argument"
  by (simp add: eval_defs rpn_dot)

lemma stod_dots:
  "stod A ''1.2.3'' = (case strtod A ''1.2'' of None \<Rightarrow> Inl out_of_range | Some d \<Rightarrow> Inr d)"
  by (simp add: stod_def strtod_subject_def isdigit_def)

lemma evaluate_dots:
  "evaluate A ''1.2.3'' = (case strtod A ''1.2'' of None \<Rightarrow> Inl out_of_range | Some d \<Rightarrow> Inr d)"
  by (simp add: evaluate_def solveRPN_def solveRPN_step_def rpn_dots stod_dots split: option.splits)

lemma exact_one_point_two: "strtod exact ''1.2'' = Some (12 / 10)"
  by (simp add: exact_defs)

text \<open>
  C4, as stated, fails on a literal with two decimal points: \<^verbatim>\<open>1.2.3\<close> is one
  \<open>Number\<close> token, \<^verbatim>\<open>std::stod\<close> reads its prefix \<^verbatim>\<open>1.2\<close> and ignores the rest, and
  \<open>evaluate\<close> returns 1.2 and reports no error.
\<close>

theorem two_decimal_points_evaluate:
  "tokenize ''1.2.3'' = [num ''1.2.3''] \<and>
   stod exact ''1.2.3'' = Inr (12 / 10) \<and>
   evaluate exact ''1.2.3'' = Inr (12 / 10)"
  by (simp add: tokenize_dots stod_dots evaluate_dots exact_one_point_two)

text \<open>
  C4, amended. For every string \<open>evaluate\<close> either returns a double or throws one of
  its exceptions: a \<^verbatim>\<open>std::runtime_error\<close> of the calculator, or the
  \<^verbatim>\<open>std::invalid_argument\<close> or \<^verbatim>\<open>std::out_of_range\<close> of \<^verbatim>\<open>std::stod\<close>, which the
  code lets through as they are. \<^verbatim>\<open>std::stod\<close> throws \<^verbatim>\<open>std::invalid_argument\<close>
  exactly when the text has no decimal literal as a prefix; for a \<open>Number\<close> token
  that is the text \<^verbatim>\<open>.\<close> and every text that starts with two dots. So \<^verbatim>\<open>.\<close> throws
  \<^verbatim>\<open>std::invalid_argument\<close>. A literal with several decimal points that starts with a
  digit, or with a dot and a digit, is not an error: its longest prefix that is a
  decimal literal is converted, and \<^verbatim>\<open>1.2.3\<close> evaluates to 1.2. The model leaves out
  the exhaustion of memory.
\<close>

theorem evaluate_exceptions:
  "(\<forall>(A :: 'd arith) expression.
      (\<exists>d. evaluate A expression = Inr d) \<or>
      (\<exists>e. evaluate A expression = Inl e \<and> evaluate_exception e)) \<and>
   (\<forall>(A :: 'd arith) t. (stod A t = Inl invalid_argument) = (strtod_subject t = [])) \<and>
   (\<forall>t. t \<noteq> [] \<and> list_all isnumchar t \<longrightarrow>
      (strtod_subject t = []) = (t = ''.'' \<or> take 2 t = ''..'')) \<and>
   (\<forall>A :: 'd arith. evaluate A ''.'' = Inl invalid_argument) \<and>
   (\<forall>A :: 'd arith.
      evaluate A ''1.2.3'' =
        (case strtod A ''1.2'' of None \<Rightarrow> Inl out_of_range | Some d \<Rightarrow> Inr d)) \<and>
   evaluate exact ''1.2.3'' = Inr (12 / 10)"
proof -
  have total: "\<forall>(A :: 'd arith) expression.
      (\<exists>d. evaluate A expression = Inr d) \<or>
      (\<exists>e. evaluate A expression = Inl e \<and> evaluate_exception e)"
    by (intro allI) (rule evaluate_returns_or_throws)
  have invalid: "\<forall>(A :: 'd arith) t.
      (stod A t = Inl invalid_argument) = (strtod_subject t = [])"
    by (intro allI) (rule stod_invalid_argument)
  have which: "\<forall>t. t \<noteq> [] \<and> list_all isnumchar t \<longrightarrow>
      (strtod_subject t = []) = (t = ''.'' \<or> take 2 t = ''..'')"
    by (intro allI impI, elim conjE, rule strtod_subject_fails)
  have dot: "\<forall>A :: 'd arith. evaluate A ''.'' = Inl invalid_argument"
    by (intro allI) (rule evaluate_dot)
  have dots: "\<forall>A :: 'd arith.
      evaluate A ''1.2.3'' =
        (case strtod A ''1.2'' of None \<Rightarrow> Inl out_of_range | Some d \<Rightarrow> Inr d)"
    by (intro allI) (rule evaluate_dots)
  have e: "evaluate exact ''1.2.3'' = Inr (12 / 10)"
    by (simp add: evaluate_dots exact_one_point_two)
  show ?thesis
    by (intro conjI, rule total, rule invalid, rule which, rule dot, rule dots, rule e)
qed

theorem evaluate_exceptions_witness:
  "''..5'' \<noteq> [] \<and> list_all isnumchar ''..5'' \<and>
   strtod_subject ''..5'' = [] \<and> take 2 ''..5'' = ''..'' \<and>
   stod exact ''..5'' = Inl invalid_argument \<and>
   ''.5'' \<noteq> [] \<and> list_all isnumchar ''.5'' \<and>
   strtod_subject ''.5'' \<noteq> [] \<and> ''.5'' \<noteq> ''.'' \<and> take 2 ''.5'' \<noteq> ''..'' \<and>
   evaluate exact ''.'' = Inl invalid_argument \<and> evaluate_exception invalid_argument"
proof -
  have h1: "''..5'' \<noteq> [] \<and> list_all isnumchar ''..5''"
    by (simp add: isnumchar_def isdigit_def)
  have h2: "''.5'' \<noteq> [] \<and> list_all isnumchar ''.5''"
    by (simp add: isnumchar_def isdigit_def)
  note inst = evaluate_exceptions [where ?'d = real]
  have c1: "(strtod_subject ''..5'' = []) = (''..5'' = ''.'' \<or> take 2 ''..5'' = ''..'')"
    by (rule inst [THEN conjunct2, THEN conjunct2, THEN conjunct1, rule_format]) (rule h1)
  have c2: "(strtod_subject ''.5'' = []) = (''.5'' = ''.'' \<or> take 2 ''.5'' = ''..'')"
    by (rule inst [THEN conjunct2, THEN conjunct2, THEN conjunct1, rule_format]) (rule h2)
  have c3: "(stod exact ''..5'' = Inl invalid_argument) = (strtod_subject ''..5'' = [])"
    by (rule inst [THEN conjunct2, THEN conjunct1, rule_format])
  have c4: "evaluate exact ''.'' = Inl invalid_argument"
    by (rule inst [THEN conjunct2, THEN conjunct2, THEN conjunct2, THEN conjunct1, rule_format])
  have c5: "evaluate_exception invalid_argument"
    using inst [THEN conjunct1, rule_format, of exact "''.''"] c4 by simp
  from h1 h2 c1 c2 c3 c4 c5 show ?thesis by simp
qed

end
